theory Spec2Isabelle
  imports Complex_Main "HOL-Library.AList"
begin

section \<open>Values exchanged by the two services\<close>

text \<open>
  Both services exchange JSON. A decoded JSON value is what \<^verbatim>\<open>request.get_json()\<close> and
  \<^verbatim>\<open>response.json()\<close> hand to the Python code: \<^verbatim>\<open>None\<close>, a bool, a number, a
  \<^verbatim>\<open>str\<close>, a \<^verbatim>\<open>list\<close> or a \<^verbatim>\<open>dict\<close>. A \<^verbatim>\<open>dict\<close> is an association list in
  insertion order, as Python keeps it; \<open>map_of\<close> reads a key, \<open>AList.update\<close> is
  \<^verbatim>\<open>d[k] = v\<close> (in place for an existing key, appended for a new one) and
  \<open>AList.delete\<close> is \<^verbatim>\<open>d.pop(k)\<close>. Numbers are rationals (the non-standard
  \<^verbatim>\<open>NaN\<close> and \<^verbatim>\<open>Infinity\<close> are not represented). A Python \<^verbatim>\<open>str\<close> is a
  \<open>string\<close>; text outside ASCII is held in UTF-8.
\<close>

datatype json =
    JNull
  | JBool bool
  | JNum rat
  | JStr string
  | JArr "json list"
  | JObj "(string \<times> json) list"

type_synonym pydict = "(string \<times> json) list"

text \<open>
  The exceptions the handlers can let escape. Flask answers \<^verbatim>\<open>BadRequestKeyError\<close> (a
  missing form field) with status 400 and every other one with status 500;
  \<^verbatim>\<open>TemplateError\<close> is whatever Jinja raises while it prints a value.
\<close>

datatype pyerr =
    TypeError
  | AttributeError
  | KeyError
  | ValueError string
  | BadRequestKeyError
  | TemplateError string

text \<open>Python truthiness, as used by \<^verbatim>\<open>if not data\<close> and by the template's \<^verbatim>\<open>{% if %}\<close>.\<close>

fun truthy :: "json \<Rightarrow> bool" where
  "truthy JNull = False"
| "truthy (JBool b) = b"
| "truthy (JNum n) = (n \<noteq> 0)"
| "truthy (JStr s) = (s \<noteq> [])"
| "truthy (JArr xs) = (xs \<noteq> [])"
| "truthy (JObj d) = (d \<noteq> [])"

fun is_prefix :: "string \<Rightarrow> string \<Rightarrow> bool" where
  "is_prefix [] ys = True"
| "is_prefix (x # xs) [] = False"
| "is_prefix (x # xs) (y # ys) = (x = y \<and> is_prefix xs ys)"

fun contains :: "string \<Rightarrow> string \<Rightarrow> bool" where
  "contains [] sub = (sub = [])"
| "contains (c # cs) sub = (is_prefix sub (c # cs) \<or> contains cs sub)"

text \<open>
  \<^verbatim>\<open>field in data\<close>: key membership for a dict, element membership for a list, substring
  test for a str, and a \<^verbatim>\<open>TypeError\<close> for \<^verbatim>\<open>True\<close> and for a number.
\<close>

fun py_in :: "string \<Rightarrow> json \<Rightarrow> pyerr + bool" where
  "py_in k (JObj d) = Inr (k \<in> fst ` set d)"
| "py_in k (JArr xs) = Inr (JStr k \<in> set xs)"
| "py_in k (JStr s) = Inr (contains s k)"
| "py_in k JNull = Inl TypeError"
| "py_in k (JBool b) = Inl TypeError"
| "py_in k (JNum n) = Inl TypeError"

text \<open>\<^verbatim>\<open>data[field]\<close> with a str key: only a dict accepts it.\<close>

fun py_getitem :: "json \<Rightarrow> string \<Rightarrow> pyerr + json" where
  "py_getitem (JObj d) k = (case map_of d k of None \<Rightarrow> Inl KeyError | Some v \<Rightarrow> Inr v)"
| "py_getitem j k = Inl TypeError"

text \<open>\<^verbatim>\<open>data.get(key, default)\<close>: a method of dicts only.\<close>

fun py_get :: "json \<Rightarrow> string \<Rightarrow> json \<Rightarrow> pyerr + json" where
  "py_get (JObj d) k dflt = (case map_of d k of None \<Rightarrow> Inr dflt | Some v \<Rightarrow> Inr v)"
| "py_get j k dflt = Inl AttributeError"

section \<open>User Store Service (backend\_service.py)\<close>

text \<open>
  \<^verbatim>\<open>users_db\<close> is a dict from id to user, and a user is itself a dict. A response is the
  pair of the JSON body given to \<^verbatim>\<open>jsonify\<close> and the status code. A handler takes the
  store and returns the store it leaves behind with its response. The argument \<open>data\<close>
  is the value \<^verbatim>\<open>request.get_json()\<close> returns (\<open>JNull\<close> for \<^verbatim>\<open>None\<close>). The
  identifier \<^verbatim>\<open>str(uuid.uuid4())\<close> and the clock reading
  \<^verbatim>\<open>datetime.utcnow().isoformat()\<close> are arguments \<open>uid\<close> and \<open>now\<close> of the handlers
  that call them. No request chooses the identifier: \<^verbatim>\<open>uuid4\<close> draws it from 122
  random bits, and the properties of a create are stated for a draw that is not in use.
\<close>

type_synonym store = "(string \<times> pydict) list"

type_synonym response = "json \<times> nat"

definition users_db :: store where
  "users_db =
    [(''1'', [(''id'', JStr ''1''), (''name'', JStr ''John Doe''),
              (''email'', JStr ''john@example.com''), (''role'', JStr ''admin''),
              (''created_at'', JStr ''2025-01-01T10:00:00Z'')]),
     (''2'', [(''id'', JStr ''2''), (''name'', JStr ''Jane Smith''),
              (''email'', JStr ''jane@example.com''), (''role'', JStr ''user''),
              (''created_at'', JStr ''2025-01-02T11:00:00Z'')])]"

definition error_body :: "string \<Rightarrow> json" where
  "error_body msg = JObj [(''error'', JStr msg)]"

text \<open>The \<^verbatim>\<open>errorhandler(500)\<close> of the backend: the answer to an escaped exception.\<close>

definition internal_error :: response where
  "internal_error = (error_body ''Internal server error'', 500)"

definition get_users :: "store \<Rightarrow> response" where
  "get_users db =
     (JObj [(''users'', JArr (map (\<lambda>(k, u). JObj u) db)),
            (''count'', JNum (of_nat (length db)))], 200)"

definition get_user :: "string \<Rightarrow> store \<Rightarrow> response" where
  "get_user user_id db =
     (case map_of db user_id of
        None \<Rightarrow> (error_body ''User not found'', 404)
      | Some u \<Rightarrow> (JObj u, 200))"

text \<open>
  The loop over \<^verbatim>\<open>required_fields\<close>: the first field that is not in \<open>data\<close>, if any;
  the membership test itself can raise.
\<close>

fun first_missing :: "string list \<Rightarrow> json \<Rightarrow> pyerr + string option" where
  "first_missing [] data = Inr None"
| "first_missing (field # fields) data =
     (case py_in field data of
        Inl e \<Rightarrow> Inl e
      | Inr False \<Rightarrow> Inr (Some field)
      | Inr True \<Rightarrow> first_missing fields data)"

text \<open>The dict literal \<^verbatim>\<open>new_user\<close>; each subscript and the \<^verbatim>\<open>.get\<close> can raise.\<close>

definition new_user :: "string \<Rightarrow> string \<Rightarrow> json \<Rightarrow> pyerr + pydict" where
  "new_user uid now data =
     (case py_getitem data ''name'' of
        Inl e \<Rightarrow> Inl e
      | Inr name \<Rightarrow>
          (case py_getitem data ''email'' of
             Inl e \<Rightarrow> Inl e
           | Inr email \<Rightarrow>
               (case py_get data ''role'' (JStr ''user'') of
                  Inl e \<Rightarrow> Inl e
                | Inr role \<Rightarrow>
                    Inr [(''id'', JStr uid), (''name'', name), (''email'', email),
                         (''role'', role), (''created_at'', JStr now)])))"

definition create_user :: "string \<Rightarrow> string \<Rightarrow> json \<Rightarrow> store \<Rightarrow> store \<times> response" where
  "create_user uid now data db =
     (if \<not> truthy data then (db, error_body ''No data provided'', 400)
      else
        (case first_missing [''name'', ''email''] data of
           Inl e \<Rightarrow> (db, internal_error)
         | Inr (Some field) \<Rightarrow> (db, error_body (''Missing required field: '' @ field), 400)
         | Inr None \<Rightarrow>
             (case new_user uid now data of
                Inl e \<Rightarrow> (db, internal_error)
              | Inr u \<Rightarrow> (AList.update uid u db, JObj u, 201))))"

text \<open>
  The loop of \<^verbatim>\<open>update_user\<close> over \<^verbatim>\<open>['name', 'email', 'role']\<close>. It writes into the
  stored dict as it goes, so it returns the dict as far as it got together with the
  exception that stopped it, if one did.
\<close>

fun update_fields :: "string list \<Rightarrow> json \<Rightarrow> pydict \<Rightarrow> pydict \<times> pyerr option" where
  "update_fields [] data user = (user, None)"
| "update_fields (field # fields) data user =
     (case py_in field data of
        Inl e \<Rightarrow> (user, Some e)
      | Inr False \<Rightarrow> update_fields fields data user
      | Inr True \<Rightarrow>
          (case py_getitem data field of
             Inl e \<Rightarrow> (user, Some e)
           | Inr v \<Rightarrow> update_fields fields data (AList.update field v user)))"

definition update_user :: "string \<Rightarrow> string \<Rightarrow> json \<Rightarrow> store \<Rightarrow> store \<times> response" where
  "update_user user_id now data db =
     (case map_of db user_id of
        None \<Rightarrow> (db, error_body ''User not found'', 404)
      | Some user \<Rightarrow>
          (if \<not> truthy data then (db, error_body ''No data provided'', 400)
           else
             (case update_fields [''name'', ''email'', ''role''] data user of
                (user', Some e) \<Rightarrow> (AList.update user_id user' db, internal_error)
              | (user', None) \<Rightarrow>
                  (let user'' = AList.update ''updated_at'' (JStr now) user'
                   in (AList.update user_id user'' db, JObj user'', 200)))))"

definition delete_user :: "string \<Rightarrow> store \<Rightarrow> store \<times> response" where
  "delete_user user_id db =
     (case map_of db user_id of
        None \<Rightarrow> (db, error_body ''User not found'', 404)
      | Some deleted_user \<Rightarrow>
          (AList.delete user_id db,
           JObj [(''message'', JStr ''User deleted successfully''),
                 (''user'', JObj deleted_user)], 200))"

text \<open>What a client reads of one field of the user stored under \<open>k\<close>, if there is one.\<close>

definition field_of :: "store \<Rightarrow> string \<Rightarrow> string \<Rightarrow> json option" where
  "field_of db k f = (case map_of db k of None \<Rightarrow> None | Some u \<Rightarrow> map_of u f)"

text \<open>
  A client's view of the service over time: a sequence of mutating requests, each with the
  identifier and clock reading its handler draws, applied to the store from left to right.
\<close>

datatype op =
    Create string string json
  | Update string string json
  | Delete string

fun apply_op :: "op \<Rightarrow> store \<Rightarrow> store" where
  "apply_op (Create uid now data) db = fst (create_user uid now data db)"
| "apply_op (Update user_id now data) db = fst (update_user user_id now data db)"
| "apply_op (Delete user_id) db = fst (delete_user user_id db)"

fun run :: "op list \<Rightarrow> store \<Rightarrow> store" where
  "run [] db = db"
| "run (x # xs) db = run xs (apply_op x db)"

text \<open>
  The store is keyed by the \<^verbatim>\<open>id\<close> of the user it holds: true of the seed data and kept by
  every handler.
\<close>

definition keyed_by_id :: "store \<Rightarrow> bool" where
  "keyed_by_id db = list_all (\<lambda>(k, u). map_of u ''id'' = Some (JStr k)) db"

text \<open>
  The identifier under which an operation stores a new user: that of a create that gets as
  far as \<^verbatim>\<open>users_db[user_id] = new_user\<close>, which is one answered 201.
\<close>

fun stores_under :: "op \<Rightarrow> store \<Rightarrow> string option" where
  "stores_under (Create uid now data) db =
     (if snd (snd (create_user uid now data db)) = 201 then Some uid else None)"
| "stores_under (Update user_id now data) db = None"
| "stores_under (Delete user_id) db = None"

text \<open>
  A run draws unused identifiers when every identifier under which it stores a new user
  is, at that moment, neither a key of the store nor one of the keys \<open>seen\<close> in the
  stores the run has been through.
\<close>

fun draws_unused :: "string list \<Rightarrow> op list \<Rightarrow> store \<Rightarrow> bool" where
  "draws_unused seen [] db = True"
| "draws_unused seen (x # xs) db =
     ((case stores_under x db of
         None \<Rightarrow> True
       | Some uid \<Rightarrow> uid \<notin> set seen \<and> uid \<notin> fst ` set db)
      \<and> draws_unused (map fst db @ seen) xs (apply_op x db))"

section \<open>Dashboard Service (frontend\_service.py)\<close>

subsection \<open>The HTTP client\<close>

text \<open>
  What \<^verbatim>\<open>requests.get/post/delete(url, timeout=5)\<close> can do: raise a
  \<^verbatim>\<open>RequestException\<close> (connection refused, timeout, ...) whose text is given, or return a
  response with a status code, a reason phrase, a URL and a body. The URL is
  \<^verbatim>\<open>response.url\<close>: the URL requests made of the one it was given (it quotes and
  normalises it, so \<^verbatim>\<open>/api/users/a b\<close> becomes \<^verbatim>\<open>/api/users/a%20b\<close>), or the one a
  redirect led to. The body is what \<^verbatim>\<open>response.json()\<close> decodes it to, or the text of
  the \<^verbatim>\<open>JSONDecodeError\<close> (itself a \<^verbatim>\<open>RequestException\<close>) it raises. The network is a
  function \<open>net\<close> from the method, the URL and the JSON sent to that outcome.
\<close>

datatype http_outcome =
    RequestFailed string
  | HttpResponse nat string string "string + json"

type_synonym network = "string \<Rightarrow> string \<Rightarrow> json option \<Rightarrow> http_outcome"

text \<open>A call fails when the request raises or the response is not a 2xx one.\<close>

fun call_fails :: "http_outcome \<Rightarrow> bool" where
  "call_fails (RequestFailed e) = True"
| "call_fails (HttpResponse status_code reason url body) =
     (\<not> (200 \<le> status_code \<and> status_code < 300))"

function dec :: "nat \<Rightarrow> string" where
  "dec n = (if n < 10 then [''0123456789'' ! n] else dec (n div 10) @ [''0123456789'' ! (n mod 10)])"
  by pat_completeness auto
termination
  by (relation "measure id") auto

declare dec.simps [simp del]

text \<open>
  \<^verbatim>\<open>response.raise_for_status()\<close> of the requests library: it raises \<^verbatim>\<open>HTTPError\<close> for
  the status codes 400 to 599 and for no other; the result is the text of the exception,
  which ends in the URL of the response.
\<close>

definition raise_for_status :: "nat \<Rightarrow> string \<Rightarrow> string \<Rightarrow> string option" where
  "raise_for_status status_code reason url =
     (if 400 \<le> status_code \<and> status_code < 500
      then Some (dec status_code @ '' Client Error: '' @ reason @ '' for url: '' @ url)
      else if 500 \<le> status_code \<and> status_code < 600
      then Some (dec status_code @ '' Server Error: '' @ reason @ '' for url: '' @ url)
      else None)"

text \<open>
  The helper. The \<^verbatim>\<open>ValueError\<close> for an unsupported method is not a
  \<^verbatim>\<open>RequestException\<close> and escapes; every \<^verbatim>\<open>RequestException\<close> becomes the pair of an
  error payload and 500.
\<close>

definition call_backend_api ::
  "network \<Rightarrow> string \<Rightarrow> string \<Rightarrow> string \<Rightarrow> json option \<Rightarrow> pyerr + response" where
  "call_backend_api net backend_url endpoint method data =
     (let url = backend_url @ endpoint in
      if method \<noteq> ''GET'' \<and> method \<noteq> ''POST'' \<and> method \<noteq> ''DELETE''
      then Inl (ValueError (''Unsupported HTTP method: '' @ method))
      else
        (case net method url (if method = ''POST'' then data else None) of
           RequestFailed e \<Rightarrow> Inr (error_body e, 500)
         | HttpResponse status_code reason response_url body \<Rightarrow>
             (case raise_for_status status_code reason response_url of
                Some e \<Rightarrow> Inr (error_body e, 500)
              | None \<Rightarrow>
                  (case body of
                     Inl e \<Rightarrow> Inr (error_body e, 500)
                   | Inr j \<Rightarrow> Inr (j, status_code)))))"

definition and_then :: "pyerr + 'a \<Rightarrow> ('a \<Rightarrow> pyerr + 'b) \<Rightarrow> pyerr + 'b" where
  "and_then m f = (case m of Inl e \<Rightarrow> Inl e | Inr x \<Rightarrow> f x)"

subsection \<open>The dashboard page\<close>

text \<open>
  \<^verbatim>\<open>MAIN_TEMPLATE\<close> is fixed text around eight holes and three conditionals, so a rendered
  page is given by what fills them: the three status-line values, the banner (shown when
  \<^verbatim>\<open>message\<close> is truthy), the three stat cards (\<^verbatim>\<open>N/A\<close> when \<^verbatim>\<open>stats\<close> is falsy), the
  table rows (or, when \<^verbatim>\<open>users\<close> is falsy, the paragraph "No users found or backend
  service unavailable.", here \<open>None\<close>) and the backend URL. The values are those passed to
  the template, before Jinja escapes them. How Jinja prints an attribute chain such as
  \<^verbatim>\<open>stats.service_info.environment\<close> and a table row of a user is not fixed by this
  repository: \<open>print_attr\<close> and \<open>print_row\<close> stand for it, and either may raise.
\<close>

record template_context =
  ctx_users :: json
  ctx_stats :: json
  ctx_backend_status :: string
  ctx_frontend_status :: string
  ctx_backend_url :: string
  ctx_timestamp :: string
  ctx_message :: "string option"
  ctx_message_type :: string

record page =
  pg_backend_status :: string
  pg_frontend_status :: string
  pg_timestamp :: string
  pg_banner :: "(string \<times> string) option"
  pg_total_users :: string
  pg_environment :: string
  pg_version :: string
  pg_users :: "string list option"
  pg_backend_url :: string

type_synonym attr_printer = "json \<Rightarrow> string list \<Rightarrow> pyerr + string"

type_synonym row_printer = "json \<Rightarrow> pyerr + string"

text \<open>\<^verbatim>\<open>{% for user in users %}\<close>: what iterating a decoded JSON value yields.\<close>

fun py_iter :: "json \<Rightarrow> pyerr + json list" where
  "py_iter (JArr xs) = Inr xs"
| "py_iter (JObj d) = Inr (map (\<lambda>(k, v). JStr k) d)"
| "py_iter (JStr s) = Inr (map (\<lambda>c. JStr [c]) s)"
| "py_iter j = Inl TypeError"

fun render_rows :: "row_printer \<Rightarrow> json list \<Rightarrow> pyerr + string list" where
  "render_rows print_row [] = Inr []"
| "render_rows print_row (user # rest) =
     and_then (print_row user) (\<lambda>row.
     and_then (render_rows print_row rest) (\<lambda>rows. Inr (row # rows)))"

definition render_stat :: "attr_printer \<Rightarrow> json \<Rightarrow> string list \<Rightarrow> pyerr + string" where
  "render_stat print_attr stats path =
     (if truthy stats then print_attr stats path else Inr ''N/A'')"

definition render_users :: "row_printer \<Rightarrow> json \<Rightarrow> pyerr + string list option" where
  "render_users print_row users =
     (if truthy users
      then and_then (py_iter users) (\<lambda>us.
           and_then (render_rows print_row us) (\<lambda>rows. Inr (Some rows)))
      else Inr None)"

definition render_main_template ::
  "attr_printer \<Rightarrow> row_printer \<Rightarrow> template_context \<Rightarrow> pyerr + page" where
  "render_main_template print_attr print_row ctx =
     (let banner = (case ctx_message ctx of
                      None \<Rightarrow> None
                    | Some m \<Rightarrow> if m \<noteq> [] then Some (ctx_message_type ctx, m) else None) in
      and_then (render_stat print_attr (ctx_stats ctx) [''total_users'']) (\<lambda>total.
      and_then (render_stat print_attr (ctx_stats ctx) [''service_info'', ''environment'']) (\<lambda>environment.
      and_then (render_stat print_attr (ctx_stats ctx) [''service_info'', ''version'']) (\<lambda>version.
      and_then (render_users print_row (ctx_users ctx)) (\<lambda>rows.
        Inr \<lparr>pg_backend_status = ctx_backend_status ctx,
             pg_frontend_status = ctx_frontend_status ctx,
             pg_timestamp = ctx_timestamp ctx,
             pg_banner = banner,
             pg_total_users = total,
             pg_environment = environment,
             pg_version = version,
             pg_users = rows,
             pg_backend_url = ctx_backend_url ctx\<rparr>)))))"

subsection \<open>The handlers\<close>

text \<open>
  What a handler returns: the rendered dashboard, or a redirect to the dashboard carrying
  the \<^verbatim>\<open>message\<close> and \<^verbatim>\<open>type\<close> query parameters. When an exception escapes, Flask
  answers instead: 400 for the \<^verbatim>\<open>BadRequestKeyError\<close> of a missing form field, otherwise the
  \<^verbatim>\<open>errorhandler(500)\<close> page.
\<close>

datatype view =
    MainPage page
  | RedirectToDashboard string string
  | BadRequestPage
  | InternalErrorPage

definition flask_response :: "pyerr + view \<times> nat \<Rightarrow> view \<times> nat" where
  "flask_response r =
     (case r of
        Inr v \<Rightarrow> v
      | Inl BadRequestKeyError \<Rightarrow> (BadRequestPage, 400)
      | Inl e \<Rightarrow> (InternalErrorPage, 500))"

definition online :: string where
  "online = [CHR 0xF0, CHR 0x9F, CHR 0x9F, CHR 0xA2] @ '' Online''"

definition offline :: string where
  "offline = [CHR 0xF0, CHR 0x9F, CHR 0x94, CHR 0xB4] @ '' Offline''"

definition dashboard ::
  "network \<Rightarrow> string \<Rightarrow> attr_printer \<Rightarrow> row_printer \<Rightarrow> string \<Rightarrow> (string \<times> string) list
     \<Rightarrow> pyerr + view \<times> nat" where
  "dashboard net backend_url print_attr print_row now args =
     and_then (call_backend_api net backend_url ''/api/users'' ''GET'' None)
       (\<lambda>(users_response, users_status).
     and_then (if users_status = 200 then py_get users_response ''users'' (JArr [])
               else Inr (JArr []))
       (\<lambda>users.
     and_then (call_backend_api net backend_url ''/api/stats'' ''GET'' None)
       (\<lambda>(stats_response, stats_status).
     let stats = (if stats_status = 200 then stats_response else JNull) in
     and_then (call_backend_api net backend_url ''/health'' ''GET'' None)
       (\<lambda>(backend_health, backend_status_code).
     let backend_status = (if backend_status_code = 200 then online else offline) in
     and_then (render_main_template print_attr print_row
                 \<lparr>ctx_users = users, ctx_stats = stats, ctx_backend_status = backend_status,
                  ctx_frontend_status = online, ctx_backend_url = backend_url,
                  ctx_timestamp = now, ctx_message = map_of args ''message'',
                  ctx_message_type = (case map_of args ''type'' of
                                        None \<Rightarrow> ''success'' | Some t \<Rightarrow> t)\<rparr>)
       (\<lambda>html. Inr (MainPage html, 200))))))"

text \<open>
  An f-string prints a \<^verbatim>\<open>str\<close> as it is and any other value through \<^verbatim>\<open>str()\<close>, for
  which \<open>repr\<close> stands.
\<close>

definition py_format :: "(json \<Rightarrow> string) \<Rightarrow> json \<Rightarrow> string" where
  "py_format repr v = (case v of JStr s \<Rightarrow> s | _ \<Rightarrow> repr v)"

definition form_get :: "(string \<times> string) list \<Rightarrow> string \<Rightarrow> pyerr + string" where
  "form_get form k = (case map_of form k of None \<Rightarrow> Inl BadRequestKeyError | Some v \<Rightarrow> Inr v)"

definition add_user ::
  "network \<Rightarrow> string \<Rightarrow> (json \<Rightarrow> string) \<Rightarrow> (string \<times> string) list \<Rightarrow> pyerr + view \<times> nat" where
  "add_user net backend_url repr form =
     and_then (form_get form ''name'') (\<lambda>name.
     and_then (form_get form ''email'') (\<lambda>email.
     and_then (form_get form ''role'') (\<lambda>role.
     let user_data = JObj [(''name'', JStr name), (''email'', JStr email), (''role'', JStr role)] in
     and_then (call_backend_api net backend_url ''/api/users'' ''POST'' (Some user_data))
       (\<lambda>(response, status_code).
     if status_code = 201
     then Inr (RedirectToDashboard
                 (''User '' @ [CHR 0x27] @ name @ [CHR 0x27] @ '' added successfully!'')
                 ''success'', 302)
     else and_then (py_get response ''error'' (JStr ''Unknown error'')) (\<lambda>err.
          Inr (RedirectToDashboard (''Failed to add user: '' @ py_format repr err)
                 ''danger'', 302))))))"

text \<open>
  The dashboard's \<^verbatim>\<open>delete_user\<close> (route \<^verbatim>\<open>/delete_user/<user_id>\<close>); the name
  \<open>delete_user\<close> is the User Store's handler here.
\<close>

definition delete_user_page ::
  "network \<Rightarrow> string \<Rightarrow> (json \<Rightarrow> string) \<Rightarrow> string \<Rightarrow> pyerr + view \<times> nat" where
  "delete_user_page net backend_url repr user_id =
     and_then (call_backend_api net backend_url (''/api/users/'' @ user_id) ''DELETE'' None)
       (\<lambda>(response, status_code).
     if status_code = 200
     then Inr (RedirectToDashboard ''User deleted successfully!'' ''success'', 302)
     else and_then (py_get response ''error'' (JStr ''Unknown error'')) (\<lambda>err.
          Inr (RedirectToDashboard (''Failed to delete user: '' @ py_format repr err)
                 ''danger'', 302)))"

subsection \<open>Scenarios\<close>

text \<open>
  Backends and printers to run the handlers against. \<open>unreachable\<close> refuses every
  connection; \<open>failing\<close> times out on the user list, knows no statistics route and is
  unavailable for the health check; \<open>rejecting\<close> answers every request 400 with the
  error body of a missing \<^verbatim>\<open>name\<close>; \<open>accepting\<close> answers 201 with a created user;
  \<open>faulty\<close> answers 500 as the User Store's \<^verbatim>\<open>errorhandler(500)\<close> does and
  \<open>not_found\<close> answers 404 as it does for an unknown id; \<open>multiple_choices\<close> answers
  300 with a JSON body. The URL of each response is the URL asked, as requests reports it
  for a URL in which it has nothing to rewrite; \<open>not_found\<close>, asked for the user
  \<^verbatim>\<open>a b\<close>, reports the quoted \<^verbatim>\<open>a%20b\<close>. The printers \<open>no_attr\<close> and \<open>no_row\<close>
  raise whenever they are called, and \<open>no_repr\<close> prints nothing.
\<close>

definition unreachable :: network where
  "unreachable method url data = RequestFailed ''Connection refused''"

definition failing :: network where
  "failing method url data =
     (if url = ''http://localhost:8086/api/users'' then RequestFailed ''Read timed out''
      else if url = ''http://localhost:8086/api/stats''
      then HttpResponse 404 ''NOT FOUND'' url
             (Inr (JObj [(''error'', JStr ''Endpoint not found'')]))
      else HttpResponse 503 ''SERVICE UNAVAILABLE'' url (Inl ''Expecting value''))"

definition rejecting :: network where
  "rejecting method url data =
     HttpResponse 400 ''BAD REQUEST'' url
       (Inr (JObj [(''error'', JStr ''Missing required field: name'')]))"

definition accepting :: network where
  "accepting method url data =
     HttpResponse 201 ''CREATED'' url
       (Inr (JObj [(''id'', JStr ''3f2b8c1e-0d4a-4e6f-9a7b-5c2d1e0f9a8b''), (''name'', JStr ''A''),
                   (''email'', JStr ''a@x.com''), (''role'', JStr ''user''),
                   (''created_at'', JStr ''2025-03-01T09:30:00'')]))"

definition faulty :: network where
  "faulty method url data =
     HttpResponse 500 ''INTERNAL SERVER ERROR'' url
       (Inr (JObj [(''error'', JStr ''Internal server error'')]))"

definition not_found :: network where
  "not_found method url data =
     HttpResponse 404 ''NOT FOUND''
       (if url = ''http://localhost:8086/api/users/a b''
        then ''http://localhost:8086/api/users/a%20b'' else url)
       (Inr (JObj [(''error'', JStr ''User not found'')]))"

definition multiple_choices :: network where
  "multiple_choices method url data =
     HttpResponse 300 ''MULTIPLE CHOICES'' url
       (Inr (JObj [(''error'', JStr ''Several users match'')]))"

definition no_attr :: attr_printer where
  "no_attr j path = Inl (TemplateError ''not printed'')"

definition no_row :: row_printer where
  "no_row j = Inl (TemplateError ''not printed'')"

definition no_repr :: "json \<Rightarrow> string" where
  "no_repr j = []"

section \<open>Properties of the User Store Service\<close>

subsection \<open>Dictionaries\<close>


lemma map_of_Some_key: "map_of d k = Some v \<Longrightarrow> k \<in> fst ` set d"
  by (metis domI dom_map_of_conv_image_fst)

lemma key_map_of_Some: "k \<in> fst ` set d \<Longrightarrow> \<exists>v. map_of d k = Some v"
  by (metis domD dom_map_of_conv_image_fst)

lemma update_fields_frame:
  "k \<notin> set fs \<Longrightarrow> map_of (fst (update_fields fs data user)) k = map_of user k"
  by (induction fs arbitrary: user)
     (auto simp: update_conv' split: sum.splits bool.splits)

lemma update_fields_dict:
  "distinct fs \<Longrightarrow> update_fields fs (JObj d) user = (user', e) \<Longrightarrow>
     e = None \<and> (\<forall>k. map_of user' k =
        (if k \<in> set fs \<and> k \<in> fst ` set d then map_of d k else map_of user k))"
proof (induction fs arbitrary: user)
  case Nil
  then show ?case by simp
next
  case (Cons f fs)
  show ?case
  proof (cases "f \<in> fst ` set d")
    case True
    from key_map_of_Some [OF True] obtain v where v: "map_of d f = Some v" ..
    with True Cons.prems have "update_fields fs (JObj d) (AList.update f v user) = (user', e)"
      by simp
    with Cons.IH Cons.prems(1) have "e = None" and
      "\<forall>k. map_of user' k = (if k \<in> set fs \<and> k \<in> fst ` set d then map_of d k
                              else map_of (AList.update f v user) k)"
      by auto
    then show ?thesis using v True Cons.prems(1) by (auto simp: update_conv')
  next
    case False
    with Cons.prems have "update_fields fs (JObj d) user = (user', e)" by simp
    with Cons.IH Cons.prems(1) False show ?thesis by auto
  qed
qed

subsection \<open>The store stays keyed by id\<close>

lemma keyed_by_id_lookup:
  "keyed_by_id db \<Longrightarrow> map_of db k = Some u \<Longrightarrow> map_of u ''id'' = Some (JStr k)"
  unfolding keyed_by_id_def by (induction db) (auto split: if_splits)

lemma keyed_by_id_update:
  "keyed_by_id db \<Longrightarrow> map_of u ''id'' = Some (JStr k) \<Longrightarrow> keyed_by_id (AList.update k u db)"
  unfolding keyed_by_id_def by (induction db) auto

lemma keyed_by_id_delete: "keyed_by_id db \<Longrightarrow> keyed_by_id (AList.delete k db)"
  unfolding keyed_by_id_def by (induction db) auto

lemma new_user_id: "new_user uid now data = Inr u \<Longrightarrow> map_of u ''id'' = Some (JStr uid)"
  unfolding new_user_def by (auto split: sum.splits)

lemma keyed_by_id_create: "keyed_by_id db \<Longrightarrow> keyed_by_id (fst (create_user uid now data db))"
  unfolding create_user_def
  by (auto split: sum.splits option.splits intro: keyed_by_id_update dest: new_user_id)

lemma update_user_found:
  assumes "map_of db user_id = Some user" and "truthy data"
    and "update_fields [''name'', ''email'', ''role''] data user = (user', e)"
  shows "update_user user_id now data db =
           (case e of
              Some err \<Rightarrow> (AList.update user_id user' db, internal_error)
            | None \<Rightarrow> (AList.update user_id (AList.update ''updated_at'' (JStr now) user') db,
                       JObj (AList.update ''updated_at'' (JStr now) user'), 200))"
  using assms
  by (simp add: update_user_def Let_def del: update_fields.simps split: option.splits)

lemma keyed_by_id_update_user:
  assumes "keyed_by_id db"
  shows "keyed_by_id (fst (update_user user_id now data db))"
proof (cases "map_of db user_id")
  case None
  with assms show ?thesis by (simp add: update_user_def)
next
  case (Some user)
  obtain user' e where uf: "update_fields [''name'', ''email'', ''role''] data user = (user', e)"
    by (cases "update_fields [''name'', ''email'', ''role''] data user")
  have "map_of (fst (update_fields [''name'', ''email'', ''role''] data user)) ''id'' = map_of user ''id''"
    by (rule update_fields_frame) simp
  with uf keyed_by_id_lookup [OF assms Some] have id': "map_of user' ''id'' = Some (JStr user_id)"
    by (simp del: update_fields.simps)
  then have "map_of (AList.update ''updated_at'' (JStr now) user') ''id'' = Some (JStr user_id)"
    by (simp add: update_conv')
  then have k2: "keyed_by_id (AList.update user_id (AList.update ''updated_at'' (JStr now) user') db)"
    using assms by (rule keyed_by_id_update [rotated])
  have k1: "keyed_by_id (AList.update user_id user' db)"
    using assms id' by (rule keyed_by_id_update)
  show ?thesis
  proof (cases "truthy data")
    case False
    with assms Some show ?thesis by (simp add: update_user_def)
  next
    case True
    from update_user_found [OF Some True uf] k1 k2 show ?thesis
      by (cases e) simp_all
  qed
qed

lemma keyed_by_id_delete_user: "keyed_by_id db \<Longrightarrow> keyed_by_id (fst (delete_user user_id db))"
  unfolding delete_user_def by (auto split: option.splits intro: keyed_by_id_delete)

lemma keyed_by_id_apply_op: "keyed_by_id db \<Longrightarrow> keyed_by_id (apply_op x db)"
  by (cases x) (simp_all add: keyed_by_id_create keyed_by_id_update_user keyed_by_id_delete_user)

lemma keyed_by_id_seed: "keyed_by_id users_db"
  by (simp add: keyed_by_id_def users_db_def)

lemma keyed_by_id_run: "keyed_by_id db \<Longrightarrow> keyed_by_id (run ops db)"
  by (induction ops arbitrary: db) (simp_all add: keyed_by_id_apply_op)


subsection \<open>Create\<close>





text \<open>
  C2, as the code has it. A create request whose body is a non-empty JSON object without
  \<^verbatim>\<open>name\<close> or without \<^verbatim>\<open>email\<close> is answered 400 with
  \<^verbatim>\<open>{"error": "Missing required field: <field>"}\<close>, the field being \<^verbatim>\<open>name\<close> when it
  is missing and \<^verbatim>\<open>email\<close> otherwise, and the store is the same afterwards, so its
  count is too.
\<close>

theorem create_user_missing_field:
  assumes "d \<noteq> []" and "''name'' \<notin> fst ` set d \<or> ''email'' \<notin> fst ` set d"
  shows "create_user uid now (JObj d) db =
           (db, error_body (''Missing required field: '' @
                  (if ''name'' \<notin> fst ` set d then ''name'' else ''email'')), 400)
       \<and> get_users (fst (create_user uid now (JObj d) db)) = get_users db"
proof -
  have "create_user uid now (JObj d) db =
           (db, error_body (''Missing required field: '' @
                  (if ''name'' \<notin> fst ` set d then ''name'' else ''email'')), 400)"
    using assms by (auto simp: create_user_def)
  then show ?thesis by simp
qed

theorem create_user_missing_field_witness:
  "create_user ''3f2b8c1e-0d4a-4e6f-9a7b-5c2d1e0f9a8b'' ''2025-03-01T09:30:00''
     (JObj [(''email'', JStr ''a@x.com'')]) users_db =
   (users_db, JObj [(''error'', JStr ''Missing required field: name'')], 400)
 \<and> create_user ''3f2b8c1e-0d4a-4e6f-9a7b-5c2d1e0f9a8b'' ''2025-03-01T09:30:00''
     (JObj [(''name'', JStr ''A'')]) users_db =
   (users_db, JObj [(''error'', JStr ''Missing required field: email'')], 400)"
proof -
  have a: "[(''email'', JStr ''a@x.com'')] \<noteq> []" by simp
  have b: "''name'' \<notin> fst ` set [(''email'', JStr ''a@x.com'')]
           \<or> ''email'' \<notin> fst ` set [(''email'', JStr ''a@x.com'')]" by simp
  have c: "[(''name'', JStr ''A'')] \<noteq> []" by simp
  have d: "''name'' \<notin> fst ` set [(''name'', JStr ''A'')]
           \<or> ''email'' \<notin> fst ` set [(''name'', JStr ''A'')]" by simp
  from create_user_missing_field [OF a b, of "''3f2b8c1e-0d4a-4e6f-9a7b-5c2d1e0f9a8b''"
         "''2025-03-01T09:30:00''" users_db]
       create_user_missing_field [OF c d, of "''3f2b8c1e-0d4a-4e6f-9a7b-5c2d1e0f9a8b''"
         "''2025-03-01T09:30:00''" users_db]
  show ?thesis by (simp add: error_body_def)
qed

text \<open>
  C2 as stated fails on the empty object: it lacks \<^verbatim>\<open>name\<close> and \<^verbatim>\<open>email\<close>, and the
  answer is 400 with "No data provided", not with "Missing required field: name".
\<close>

theorem create_user_empty_object_not_missing_field:
  "create_user ''3f2b8c1e-0d4a-4e6f-9a7b-5c2d1e0f9a8b'' ''2025-03-01T09:30:00'' (JObj []) users_db =
     (users_db, JObj [(''error'', JStr ''No data provided'')], 400)
   \<and> snd (create_user ''3f2b8c1e-0d4a-4e6f-9a7b-5c2d1e0f9a8b'' ''2025-03-01T09:30:00'' (JObj [])
           users_db)
     \<noteq> (JObj [(''error'', JStr ''Missing required field: name'')], 400)"
  by (simp add: create_user_def error_body_def)

text \<open>
  C9. An empty JSON object sent to create, or to update for an id in the store, is
  answered 400 with "No data provided" and leaves the store as it was; so is every other
  falsy body (\<^verbatim>\<open>None\<close>, \<^verbatim>\<open>false\<close>, \<^verbatim>\<open>0\<close>, the empty string, the empty list): the
  handlers answer it exactly as they answer the empty object.
\<close>

theorem empty_body_rejected:
  "create_user uid now (JObj []) db = (db, error_body ''No data provided'', 400)
   \<and> (map_of db user_id \<noteq> None \<longrightarrow>
        update_user user_id now (JObj []) db = (db, error_body ''No data provided'', 400))
   \<and> (\<not> truthy data \<longrightarrow>
        create_user uid now data db = create_user uid now (JObj []) db
        \<and> update_user user_id now data db = update_user user_id now (JObj []) db)"
  by (auto simp: create_user_def update_user_def split: option.splits)

theorem empty_body_rejected_witness:
  "map_of users_db ''1'' \<noteq> None \<and> \<not> truthy JNull
   \<and> update_user ''1'' ''2025-03-01T09:30:00'' (JObj []) users_db =
       (users_db, JObj [(''error'', JStr ''No data provided'')], 400)
   \<and> create_user ''3f2b8c1e-0d4a-4e6f-9a7b-5c2d1e0f9a8b'' ''2025-03-01T09:30:00'' JNull users_db =
       (users_db, JObj [(''error'', JStr ''No data provided'')], 400)
   \<and> update_user ''1'' ''2025-03-01T09:30:00'' JNull users_db =
       (users_db, JObj [(''error'', JStr ''No data provided'')], 400)"
proof -
  have p: "map_of users_db ''1'' \<noteq> None" by (simp add: users_db_def)
  have f: "\<not> truthy JNull" by simp
  from empty_body_rejected [of "''3f2b8c1e-0d4a-4e6f-9a7b-5c2d1e0f9a8b''"
         "''2025-03-01T09:30:00''" users_db "''1''" JNull] p f
  show ?thesis by (simp add: error_body_def)
qed

subsection \<open>Delete\<close>

text \<open>
  C4. Deleting an id that is in the store (any store the service can reach from its seed
  data) removes it, so that a following read of that id is answered 404 with "User not
  found"; the answer is 200 with the message "User deleted successfully" and the removed
  user, and the \<^verbatim>\<open>id\<close> of that user is the id that was asked for.
\<close>

theorem delete_user_present:
  assumes "db = run ops users_db" and "map_of db user_id = Some u"
  shows "snd (delete_user user_id db) =
           (JObj [(''message'', JStr ''User deleted successfully''), (''user'', JObj u)], 200)
       \<and> user_id \<notin> fst ` set (fst (delete_user user_id db))
       \<and> get_user user_id (fst (delete_user user_id db)) = (error_body ''User not found'', 404)
       \<and> map_of u ''id'' = Some (JStr user_id)"
proof -
  have "keyed_by_id db"
    unfolding assms(1) using keyed_by_id_seed by (rule keyed_by_id_run)
  then have "map_of u ''id'' = Some (JStr user_id)"
    using assms(2) by (rule keyed_by_id_lookup)
  moreover have "fst (delete_user user_id db) = AList.delete user_id db"
    using assms(2) by (simp add: delete_user_def)
  moreover have "user_id \<notin> fst ` set (AList.delete user_id db)"
    by (rule delete_notin_dom)
  ultimately show ?thesis
    using assms(2) by (simp add: delete_user_def get_user_def delete_conv')
qed

theorem delete_user_present_witness:
  "snd (delete_user ''2'' (run [Update ''2'' ''2025-03-01T09:30:00'' (JObj [(''role'', JStr ''admin'')])]
                            users_db)) =
     (JObj [(''message'', JStr ''User deleted successfully''),
            (''user'', JObj [(''id'', JStr ''2''), (''name'', JStr ''Jane Smith''),
                             (''email'', JStr ''jane@example.com''), (''role'', JStr ''admin''),
                             (''created_at'', JStr ''2025-01-02T11:00:00Z''),
                             (''updated_at'', JStr ''2025-03-01T09:30:00'')])], 200)
   \<and> get_user ''2'' (fst (delete_user ''2''
        (run [Update ''2'' ''2025-03-01T09:30:00'' (JObj [(''role'', JStr ''admin'')])] users_db)))
     = (JObj [(''error'', JStr ''User not found'')], 404)"
proof -
  have r: "run [Update ''2'' ''2025-03-01T09:30:00'' (JObj [(''role'', JStr ''admin'')])] users_db
           = [(''1'', [(''id'', JStr ''1''), (''name'', JStr ''John Doe''),
                       (''email'', JStr ''john@example.com''), (''role'', JStr ''admin''),
                       (''created_at'', JStr ''2025-01-01T10:00:00Z'')]),
              (''2'', [(''id'', JStr ''2''), (''name'', JStr ''Jane Smith''),
                       (''email'', JStr ''jane@example.com''), (''role'', JStr ''admin''),
                       (''created_at'', JStr ''2025-01-02T11:00:00Z''),
                       (''updated_at'', JStr ''2025-03-01T09:30:00'')])]"
    by (simp add: update_user_def users_db_def Let_def)
  have l: "map_of (run [Update ''2'' ''2025-03-01T09:30:00'' (JObj [(''role'', JStr ''admin'')])]
                     users_db) ''2''
           = Some [(''id'', JStr ''2''), (''name'', JStr ''Jane Smith''),
                   (''email'', JStr ''jane@example.com''), (''role'', JStr ''admin''),
                   (''created_at'', JStr ''2025-01-02T11:00:00Z''),
                   (''updated_at'', JStr ''2025-03-01T09:30:00'')]"
    unfolding r by simp
  from delete_user_present [OF refl l] show ?thesis
    by (simp add: error_body_def)
qed

text \<open>
  C5. Deleting an id that is not in the store is answered 404 with "User not found" and
  leaves the store as it was; a second such delete meets the same store and gives the same
  answer.
\<close>

theorem delete_user_absent:
  assumes "map_of db user_id = None"
  shows "delete_user user_id db = (db, error_body ''User not found'', 404)
       \<and> delete_user user_id (fst (delete_user user_id db)) = delete_user user_id db"
  using assms by (simp add: delete_user_def)

theorem delete_user_absent_witness:
  "delete_user ''no-such-id'' users_db = (users_db, JObj [(''error'', JStr ''User not found'')], 404)
   \<and> delete_user ''no-such-id'' (fst (delete_user ''no-such-id'' users_db))
       = (users_db, JObj [(''error'', JStr ''User not found'')], 404)"
proof -
  have a: "map_of users_db ''no-such-id'' = None" by (simp add: users_db_def)
  from delete_user_absent [OF a] show ?thesis by (simp add: error_body_def)
qed


subsection \<open>Update\<close>

text \<open>
  C3. An update of an id in the store with a non-empty JSON object is answered 200 with
  the full updated user, which is what the store then holds under that id; every other
  entry is unchanged. In the updated user \<^verbatim>\<open>updated_at\<close> is the clock reading, each of
  \<^verbatim>\<open>name\<close>, \<^verbatim>\<open>email\<close>, \<^verbatim>\<open>role\<close> that the body has is the body's value, and every other
  key is as before. So with a body of \<^verbatim>\<open>name\<close> alone, \<^verbatim>\<open>name\<close> is replaced and
  \<^verbatim>\<open>email\<close>, \<^verbatim>\<open>role\<close>, \<^verbatim>\<open>id\<close> and \<^verbatim>\<open>created_at\<close> are unchanged.
\<close>

theorem update_user_partial:
  assumes "map_of db user_id = Some user" and "d \<noteq> []"
  shows "\<exists>user'.
           snd (update_user user_id now (JObj d) db) = (JObj user', 200)
         \<and> map_of (fst (update_user user_id now (JObj d) db)) user_id = Some user'
         \<and> (\<forall>k. k \<noteq> user_id \<longrightarrow>
               map_of (fst (update_user user_id now (JObj d) db)) k = map_of db k)
         \<and> (\<forall>k. map_of user' k =
               (if k = ''updated_at'' then Some (JStr now)
                else if k \<in> {''name'', ''email'', ''role''} \<and> k \<in> fst ` set d then map_of d k
                else map_of user k))
         \<and> (fst ` set d = {''name''} \<longrightarrow>
               map_of user' ''name'' = map_of d ''name''
             \<and> map_of user' ''email'' = map_of user ''email''
             \<and> map_of user' ''role'' = map_of user ''role''
             \<and> map_of user' ''id'' = map_of user ''id''
             \<and> map_of user' ''created_at'' = map_of user ''created_at'')"
proof -
  obtain u1 e where uf: "update_fields [''name'', ''email'', ''role''] (JObj d) user = (u1, e)"
    by (cases "update_fields [''name'', ''email'', ''role''] (JObj d) user")
  have dist: "distinct [''name'', ''email'', ''role'']" by simp
  from update_fields_dict [OF dist uf]
  have e: "e = None"
    and u1: "\<And>k. map_of u1 k =
               (if k \<in> set [''name'', ''email'', ''role''] \<and> k \<in> fst ` set d then map_of d k
                else map_of user k)"
    by blast+
  define u2 where "u2 = AList.update ''updated_at'' (JStr now) u1"
  have tr: "truthy (JObj d)" using assms(2) by simp
  have upd: "update_user user_id now (JObj d) db = (AList.update user_id u2 db, JObj u2, 200)"
    using update_user_found [OF assms(1) tr uf, of now] e by (simp add: u2_def)
  have u2: "\<And>k. map_of u2 k =
               (if k = ''updated_at'' then Some (JStr now)
                else if k \<in> {''name'', ''email'', ''role''} \<and> k \<in> fst ` set d then map_of d k
                else map_of user k)"
    unfolding u2_def update_conv' using u1 by simp
  have only: "fst ` set d = {''name''} \<longrightarrow>
               map_of u2 ''name'' = map_of d ''name''
             \<and> map_of u2 ''email'' = map_of user ''email''
             \<and> map_of u2 ''role'' = map_of user ''role''
             \<and> map_of u2 ''id'' = map_of user ''id''
             \<and> map_of u2 ''created_at'' = map_of user ''created_at''"
    by (simp add: u2)
  have "snd (update_user user_id now (JObj d) db) = (JObj u2, 200)"
    by (simp add: upd)
  moreover have "map_of (fst (update_user user_id now (JObj d) db)) user_id = Some u2"
    by (simp add: upd update_conv')
  moreover have "\<forall>k. k \<noteq> user_id \<longrightarrow>
               map_of (fst (update_user user_id now (JObj d) db)) k = map_of db k"
    by (simp add: upd update_conv')
  ultimately show ?thesis using u2 only by blast
qed

theorem update_user_partial_witness:
  "field_of (fst (update_user ''1'' ''2025-03-01T09:30:00'' (JObj [(''name'', JStr ''X'')]) users_db))
      ''1'' ''name'' = Some (JStr ''X'')
   \<and> field_of (fst (update_user ''1'' ''2025-03-01T09:30:00'' (JObj [(''name'', JStr ''X'')]) users_db))
      ''1'' ''email'' = Some (JStr ''john@example.com'')
   \<and> field_of (fst (update_user ''1'' ''2025-03-01T09:30:00'' (JObj [(''name'', JStr ''X'')]) users_db))
      ''1'' ''role'' = Some (JStr ''admin'')
   \<and> field_of (fst (update_user ''1'' ''2025-03-01T09:30:00'' (JObj [(''name'', JStr ''X'')]) users_db))
      ''1'' ''id'' = Some (JStr ''1'')
   \<and> field_of (fst (update_user ''1'' ''2025-03-01T09:30:00'' (JObj [(''name'', JStr ''X'')]) users_db))
      ''1'' ''created_at'' = Some (JStr ''2025-01-01T10:00:00Z'')
   \<and> field_of (fst (update_user ''1'' ''2025-03-01T09:30:00'' (JObj [(''name'', JStr ''X'')]) users_db))
      ''1'' ''updated_at'' = Some (JStr ''2025-03-01T09:30:00'')
   \<and> map_of (fst (update_user ''1'' ''2025-03-01T09:30:00'' (JObj [(''name'', JStr ''X'')]) users_db))
      ''2'' = map_of users_db ''2''"
proof -
  have p: "map_of users_db ''1'' =
             Some [(''id'', JStr ''1''), (''name'', JStr ''John Doe''),
                   (''email'', JStr ''john@example.com''), (''role'', JStr ''admin''),
                   (''created_at'', JStr ''2025-01-01T10:00:00Z'')]"
    by (simp add: users_db_def)
  have n: "[(''name'', JStr ''X'')] \<noteq> []" by simp
  have o: "fst ` set [(''name'', JStr ''X'')] = {''name''}" by simp
  from update_user_partial [OF p n, of "''2025-03-01T09:30:00''"]
  obtain user' where
    st: "map_of (fst (update_user ''1'' ''2025-03-01T09:30:00'' (JObj [(''name'', JStr ''X'')])
                   users_db)) ''1'' = Some user'"
    and other: "\<forall>k. k \<noteq> ''1'' \<longrightarrow>
                 map_of (fst (update_user ''1'' ''2025-03-01T09:30:00''
                   (JObj [(''name'', JStr ''X'')]) users_db)) k = map_of users_db k"
    and upd: "\<forall>k. map_of user' k =
               (if k = ''updated_at'' then Some (JStr ''2025-03-01T09:30:00'')
                else if k \<in> {''name'', ''email'', ''role''}
                        \<and> k \<in> fst ` set [(''name'', JStr ''X'')]
                     then map_of [(''name'', JStr ''X'')] k
                else map_of [(''id'', JStr ''1''), (''name'', JStr ''John Doe''),
                             (''email'', JStr ''john@example.com''), (''role'', JStr ''admin''),
                             (''created_at'', JStr ''2025-01-01T10:00:00Z'')] k)"
    and only: "fst ` set [(''name'', JStr ''X'')] = {''name''} \<longrightarrow>
               map_of user' ''name'' = map_of [(''name'', JStr ''X'')] ''name''
             \<and> map_of user' ''email'' =
                 map_of [(''id'', JStr ''1''), (''name'', JStr ''John Doe''),
                         (''email'', JStr ''john@example.com''), (''role'', JStr ''admin''),
                         (''created_at'', JStr ''2025-01-01T10:00:00Z'')] ''email''
             \<and> map_of user' ''role'' =
                 map_of [(''id'', JStr ''1''), (''name'', JStr ''John Doe''),
                         (''email'', JStr ''john@example.com''), (''role'', JStr ''admin''),
                         (''created_at'', JStr ''2025-01-01T10:00:00Z'')] ''role''
             \<and> map_of user' ''id'' =
                 map_of [(''id'', JStr ''1''), (''name'', JStr ''John Doe''),
                         (''email'', JStr ''john@example.com''), (''role'', JStr ''admin''),
                         (''created_at'', JStr ''2025-01-01T10:00:00Z'')] ''id''
             \<and> map_of user' ''created_at'' =
                 map_of [(''id'', JStr ''1''), (''name'', JStr ''John Doe''),
                         (''email'', JStr ''john@example.com''), (''role'', JStr ''admin''),
                         (''created_at'', JStr ''2025-01-01T10:00:00Z'')] ''created_at''"
    by blast
  have "map_of (fst (update_user ''1'' ''2025-03-01T09:30:00'' (JObj [(''name'', JStr ''X'')])
           users_db)) ''2'' = map_of users_db ''2''"
    using other by simp
  moreover from upd have "map_of user' ''updated_at'' = Some (JStr ''2025-03-01T09:30:00'')"
    by simp
  moreover from only o have "map_of user' ''name'' = Some (JStr ''X'')"
    "map_of user' ''email'' = Some (JStr ''john@example.com'')"
    "map_of user' ''role'' = Some (JStr ''admin'')"
    "map_of user' ''id'' = Some (JStr ''1'')"
    "map_of user' ''created_at'' = Some (JStr ''2025-01-01T10:00:00Z'')"
    by simp_all
  ultimately show ?thesis
    unfolding field_of_def st option.case by simp
qed

subsection \<open>What a sequence of requests keeps\<close>

lemma create_user_not_stored:
  "snd (snd (create_user uid now data db)) \<noteq> 201 \<Longrightarrow> fst (create_user uid now data db) = db"
  by (auto simp: create_user_def split: sum.splits option.splits)

lemma create_user_other:
  "uid \<noteq> k \<Longrightarrow> map_of (fst (create_user uid now data db)) k = map_of db k"
  by (auto simp: create_user_def update_conv' split: sum.splits option.splits)

lemma update_keys_subset: "fst ` set (AList.update k v al) \<subseteq> insert k (fst ` set al)"
  by (induction al) auto

lemma create_user_keys:
  "fst ` set (fst (create_user uid now data db)) \<subseteq> insert uid (fst ` set db)"
  using update_keys_subset [of uid _ db]
  by (auto simp: create_user_def split: sum.splits option.splits)

lemma update_user_keys:
  "fst ` set (fst (update_user user_id now data db)) \<subseteq> fst ` set db"
proof (cases "map_of db user_id")
  case None
  then show ?thesis by (simp add: update_user_def)
next
  case (Some user)
  then have k: "insert user_id (fst ` set db) = fst ` set db"
    by (auto dest: map_of_Some_key)
  obtain u1 e where uf: "update_fields [''name'', ''email'', ''role''] data user = (u1, e)"
    by (cases "update_fields [''name'', ''email'', ''role''] data user")
  show ?thesis
  proof (cases "truthy data")
    case False
    with Some show ?thesis by (simp add: update_user_def)
  next
    case True
    show ?thesis
      using update_user_found [OF Some True uf, of now]
        update_keys_subset [of user_id u1 db]
        update_keys_subset [of user_id "AList.update ''updated_at'' (JStr now) u1" db]
      unfolding k by (cases e) simp_all
  qed
qed

lemma delete_keys_subset: "fst ` set (AList.delete k al) \<subseteq> fst ` set al"
  by (induction al) auto

lemma delete_user_keys: "fst ` set (fst (delete_user user_id db)) \<subseteq> fst ` set db"
  using delete_keys_subset [of user_id db]
  by (cases "map_of db user_id") (simp_all add: delete_user_def)

lemma apply_op_keys:
  "fst ` set (apply_op x db) \<subseteq>
     (case stores_under x db of None \<Rightarrow> fst ` set db | Some uid \<Rightarrow> insert uid (fst ` set db))"
proof (cases x)
  case (Create uid now data)
  then show ?thesis
    using create_user_keys [of uid now data db] create_user_not_stored [of uid now data db]
    by auto
next
  case (Update user_id now data)
  then show ?thesis using update_user_keys [of user_id now data db] by simp
next
  case (Delete user_id)
  then show ?thesis using delete_user_keys [of user_id db] by simp
qed

lemma never_back:
  "draws_unused seen ops db \<Longrightarrow> k \<in> set seen \<Longrightarrow> k \<notin> fst ` set db \<Longrightarrow>
     k \<notin> fst ` set (run ops db)"
proof (induction ops arbitrary: seen db)
  case Nil
  then show ?case by simp
next
  case (Cons x ops)
  from Cons.prems(1) have rest: "draws_unused (map fst db @ seen) ops (apply_op x db)"
    by simp
  have "k \<notin> fst ` set (apply_op x db)"
  proof (cases "stores_under x db")
    case None
    with apply_op_keys [of x db] Cons.prems(3) show ?thesis by auto
  next
    case (Some uid)
    with Cons.prems(1) have "uid \<notin> set seen" by simp
    with Cons.prems(2) have "uid \<noteq> k" by blast
    with apply_op_keys [of x db] Some Cons.prems(3) show ?thesis by auto
  qed
  moreover from Cons.prems(2) have "k \<in> set (map fst db @ seen)" by simp
  ultimately have "k \<notin> fst ` set (run ops (apply_op x db))"
    using rest Cons.IH by blast
  then show ?case by simp
qed

lemma apply_op_keeps:
  assumes "map_of db k = Some u" and "x \<noteq> Delete k" and "stores_under x db \<noteq> Some k"
  shows "\<exists>u'. map_of (apply_op x db) k = Some u'
             \<and> map_of u' ''created_at'' = map_of u ''created_at''
             \<and> map_of u' ''id'' = map_of u ''id''"
proof (cases x)
  case (Create uid now data)
  have "map_of (fst (create_user uid now data db)) k = map_of db k"
  proof (cases "uid = k")
    case False
    then show ?thesis by (rule create_user_other)
  next
    case True
    with assms(3) Create have "snd (snd (create_user uid now data db)) \<noteq> 201"
      by (simp split: if_splits)
    then show ?thesis by (simp add: create_user_not_stored)
  qed
  with Create assms(1) show ?thesis by simp
next
  case (Delete user_id)
  with assms(2) have "user_id \<noteq> k" by simp
  then have "map_of (fst (delete_user user_id db)) k = map_of db k"
    by (auto simp: delete_user_def delete_conv' split: option.splits)
  with Delete assms(1) show ?thesis by simp
next
  case (Update user_id now data)
  show ?thesis
  proof (cases "user_id = k \<and> truthy data")
    case False
    then have "map_of (fst (update_user user_id now data db)) k = map_of db k"
      by (cases "map_of db user_id")
         (auto simp: update_user_def update_conv' Let_def split: prod.splits option.splits
               simp del: update_fields.simps)
    with Update assms(1) show ?thesis by simp
  next
    case True
    obtain u1 e where uf: "update_fields [''name'', ''email'', ''role''] data u = (u1, e)"
      by (cases "update_fields [''name'', ''email'', ''role''] data u")
    have c: "map_of (fst (update_fields [''name'', ''email'', ''role''] data u)) ''created_at''
               = map_of u ''created_at''"
      by (rule update_fields_frame) simp
    have i: "map_of (fst (update_fields [''name'', ''email'', ''role''] data u)) ''id''
               = map_of u ''id''"
      by (rule update_fields_frame) simp
    from c i uf have u1: "map_of u1 ''created_at'' = map_of u ''created_at''"
        "map_of u1 ''id'' = map_of u ''id''"
      by (simp_all del: update_fields.simps)
    from True assms(1) have found: "map_of db user_id = Some u" and tr: "truthy data"
      by simp_all
    show ?thesis
      using update_user_found [OF found tr uf, of now] u1 Update True
      by (cases e) (simp_all add: update_conv')
  qed
qed

lemma kept_while_stored:
  "draws_unused seen ops db \<Longrightarrow> map_of db k = Some u \<Longrightarrow> map_of (run ops db) k = Some u' \<Longrightarrow>
     map_of u' ''created_at'' = map_of u ''created_at'' \<and> map_of u' ''id'' = map_of u ''id''"
proof (induction ops arbitrary: seen db u)
  case Nil
  then show ?case by simp
next
  case (Cons x ops)
  from Cons.prems(1) have rest: "draws_unused (map fst db @ seen) ops (apply_op x db)"
    by simp
  from Cons.prems(2) have stored: "k \<in> fst ` set db" by (rule map_of_Some_key)
  from Cons.prems(3) have final: "map_of (run ops (apply_op x db)) k = Some u'" by simp
  show ?case
  proof (cases "x = Delete k")
    case True
    with Cons.prems(2) have "apply_op x db = AList.delete k db"
      by (simp add: delete_user_def)
    then have "k \<notin> fst ` set (apply_op x db)" by (simp add: delete_notin_dom)
    moreover from stored have "k \<in> set (map fst db @ seen)" by simp
    ultimately have "k \<notin> fst ` set (run ops (apply_op x db))"
      using rest never_back by blast
    with final show ?thesis by (auto dest: map_of_Some_key)
  next
    case False
    have "stores_under x db \<noteq> Some k"
    proof
      assume "stores_under x db = Some k"
      with Cons.prems(1) have "k \<notin> fst ` set db" by simp
      with stored show False by contradiction
    qed
    with Cons.prems(2) False obtain u1 where
      u1: "map_of (apply_op x db) k = Some u1"
      and same: "map_of u1 ''created_at'' = map_of u ''created_at''"
        "map_of u1 ''id'' = map_of u ''id''"
      using apply_op_keeps by blast
    from Cons.IH [OF rest u1 final] same show ?thesis by simp
  qed
qed

text \<open>
  C6. Through every sequence of create, update and delete requests in which the creates
  are given unused identifiers, a user that was in the store and is in it afterwards has
  the \<^verbatim>\<open>created_at\<close> and the \<^verbatim>\<open>id\<close> it had: no request changes either, whatever the
  requests in between do to its other fields and to the other users.
\<close>

theorem created_at_kept:
  assumes "draws_unused [] ops db"
    and "map_of db k \<noteq> None" and "map_of (run ops db) k \<noteq> None"
  shows "field_of (run ops db) k ''created_at'' = field_of db k ''created_at''
       \<and> field_of (run ops db) k ''id'' = field_of db k ''id''"
proof -
  from assms(2) obtain u where u: "map_of db k = Some u" by blast
  from assms(3) obtain u' where u': "map_of (run ops db) k = Some u'" by blast
  from kept_while_stored [OF assms(1) u u'] show ?thesis
    by (simp add: field_of_def u u')
qed

theorem created_at_kept_witness:
  "field_of (run [Update ''1'' ''2025-03-01T09:30:00'' (JObj [(''name'', JStr ''X'')]),
                  Create ''3f2b8c1e-0d4a-4e6f-9a7b-5c2d1e0f9a8b'' ''2025-03-02T10:00:00''
                    (JObj [(''name'', JStr ''A''), (''email'', JStr ''a@x.com'')]),
                  Delete ''2''] users_db) ''1'' ''created_at''
     = Some (JStr ''2025-01-01T10:00:00Z'')
   \<and> field_of (run [Update ''1'' ''2025-03-01T09:30:00'' (JObj [(''name'', JStr ''X'')]),
                  Create ''3f2b8c1e-0d4a-4e6f-9a7b-5c2d1e0f9a8b'' ''2025-03-02T10:00:00''
                    (JObj [(''name'', JStr ''A''), (''email'', JStr ''a@x.com'')]),
                  Delete ''2''] users_db) ''1'' ''id''
     = Some (JStr ''1'')"
proof -
  have s1: "apply_op (Update ''1'' ''2025-03-01T09:30:00'' (JObj [(''name'', JStr ''X'')])) users_db =
      [(''1'', [(''id'', JStr ''1''), (''name'', JStr ''X''),
                (''email'', JStr ''john@example.com''), (''role'', JStr ''admin''),
                (''created_at'', JStr ''2025-01-01T10:00:00Z''),
                (''updated_at'', JStr ''2025-03-01T09:30:00'')]),
       (''2'', [(''id'', JStr ''2''), (''name'', JStr ''Jane Smith''),
                (''email'', JStr ''jane@example.com''), (''role'', JStr ''user''),
                (''created_at'', JStr ''2025-01-02T11:00:00Z'')])]"
    by (simp add: update_user_def users_db_def Let_def)
  have q: "draws_unused []
             [Update ''1'' ''2025-03-01T09:30:00'' (JObj [(''name'', JStr ''X'')]),
              Create ''3f2b8c1e-0d4a-4e6f-9a7b-5c2d1e0f9a8b'' ''2025-03-02T10:00:00''
                (JObj [(''name'', JStr ''A''), (''email'', JStr ''a@x.com'')]),
              Delete ''2''] users_db"
    unfolding draws_unused.simps s1
    by (simp add: create_user_def new_user_def users_db_def)
  have p: "map_of users_db ''1'' \<noteq> None" by (simp add: users_db_def)
  have r: "run [Update ''1'' ''2025-03-01T09:30:00'' (JObj [(''name'', JStr ''X'')]),
              Create ''3f2b8c1e-0d4a-4e6f-9a7b-5c2d1e0f9a8b'' ''2025-03-02T10:00:00''
                (JObj [(''name'', JStr ''A''), (''email'', JStr ''a@x.com'')]),
              Delete ''2''] users_db =
      [(''1'', [(''id'', JStr ''1''), (''name'', JStr ''X''),
                (''email'', JStr ''john@example.com''), (''role'', JStr ''admin''),
                (''created_at'', JStr ''2025-01-01T10:00:00Z''),
                (''updated_at'', JStr ''2025-03-01T09:30:00'')]),
       (''3f2b8c1e-0d4a-4e6f-9a7b-5c2d1e0f9a8b'',
        [(''id'', JStr ''3f2b8c1e-0d4a-4e6f-9a7b-5c2d1e0f9a8b''), (''name'', JStr ''A''),
         (''email'', JStr ''a@x.com''), (''role'', JStr ''user''),
         (''created_at'', JStr ''2025-03-02T10:00:00'')])]"
    unfolding run.simps s1
    by (simp add: create_user_def new_user_def delete_user_def)
  have l: "map_of (run [Update ''1'' ''2025-03-01T09:30:00'' (JObj [(''name'', JStr ''X'')]),
              Create ''3f2b8c1e-0d4a-4e6f-9a7b-5c2d1e0f9a8b'' ''2025-03-02T10:00:00''
                (JObj [(''name'', JStr ''A''), (''email'', JStr ''a@x.com'')]),
              Delete ''2''] users_db) ''1'' \<noteq> None"
    unfolding r by simp
  have f: "field_of users_db ''1'' ''created_at'' = Some (JStr ''2025-01-01T10:00:00Z'')"
          "field_of users_db ''1'' ''id'' = Some (JStr ''1'')"
    by (simp_all add: field_of_def users_db_def)
  from created_at_kept [OF q p l] show ?thesis
    by (simp only: f simp_thms)
qed

section \<open>Properties of the Dashboard Service\<close>

subsection \<open>The helper\<close>

lemma raise_for_status_error:
  "400 \<le> st \<Longrightarrow> st < 600 \<Longrightarrow>
     raise_for_status st reason url =
       Some (dec st @ (if st < 500 then '' Client Error: '' else '' Server Error: '')
             @ reason @ '' for url: '' @ url)"
  by (simp add: raise_for_status_def)

lemma failing_call_not_200:
  assumes "call_fails (net ''GET'' (backend_url @ endpoint) None)"
  shows "\<exists>payload st. call_backend_api net backend_url endpoint ''GET'' None = Inr (payload, st)
                      \<and> st \<noteq> 200"
proof (cases "net ''GET'' (backend_url @ endpoint) None")
  case (RequestFailed e)
  then show ?thesis by (simp add: call_backend_api_def)
next
  case (HttpResponse st reason rurl body)
  with assms have st: "\<not> (200 \<le> st \<and> st < 300)" by simp
  show ?thesis
  proof (cases "raise_for_status st reason rurl")
    case (Some e)
    with HttpResponse show ?thesis by (simp add: call_backend_api_def)
  next
    case None
    with HttpResponse st show ?thesis
      by (cases body) (auto simp: call_backend_api_def)
  qed
qed

subsection \<open>The dashboard when the backend is down\<close>

lemma render_degraded:
  "render_main_template print_attr print_row
     \<lparr>ctx_users = JArr [], ctx_stats = JNull, ctx_backend_status = bs, ctx_frontend_status = fs,
      ctx_backend_url = bu, ctx_timestamp = ts, ctx_message = m, ctx_message_type = mt\<rparr> =
   Inr \<lparr>pg_backend_status = bs, pg_frontend_status = fs, pg_timestamp = ts,
        pg_banner = (case m of None \<Rightarrow> None
                     | Some t \<Rightarrow> if t \<noteq> [] then Some (mt, t) else None),
        pg_total_users = ''N/A'', pg_environment = ''N/A'', pg_version = ''N/A'',
        pg_users = None, pg_backend_url = bu\<rparr>"
  by (simp add: render_main_template_def render_stat_def render_users_def and_then_def
           split: option.splits)

text \<open>
  C7. When each of the three backend calls of a dashboard render fails (the request
  raises, as on a refused connection or a timeout, or the response is not a 2xx one), the
  answer is still the rendered page with status 200: the user table is replaced by the
  "No users found or backend service unavailable." paragraph, the three stat cards show
  \<^verbatim>\<open>N/A\<close>, and the backend status is the offline indicator. No printer of the template is
  called, so nothing can raise.
\<close>

theorem dashboard_backend_down:
  assumes "call_fails (net ''GET'' (backend_url @ ''/api/users'') None)"
    and "call_fails (net ''GET'' (backend_url @ ''/api/stats'') None)"
    and "call_fails (net ''GET'' (backend_url @ ''/health'') None)"
  shows "flask_response (dashboard net backend_url print_attr print_row now args) =
           (MainPage
              \<lparr>pg_backend_status = offline, pg_frontend_status = online, pg_timestamp = now,
               pg_banner = (case map_of args ''message'' of
                              None \<Rightarrow> None
                            | Some m \<Rightarrow>
                                if m \<noteq> []
                                then Some (case map_of args ''type'' of
                                             None \<Rightarrow> ''success'' | Some t \<Rightarrow> t, m)
                                else None),
               pg_total_users = ''N/A'', pg_environment = ''N/A'', pg_version = ''N/A'',
               pg_users = None, pg_backend_url = backend_url\<rparr>, 200)"
proof -
  from failing_call_not_200 [of net backend_url "''/api/users''", OF assms(1)] obtain p1 s1 where
    c1: "call_backend_api net backend_url ''/api/users'' ''GET'' None = Inr (p1, s1)"
    and s1: "s1 \<noteq> 200" by blast
  from failing_call_not_200 [of net backend_url "''/api/stats''", OF assms(2)] obtain p2 s2 where
    c2: "call_backend_api net backend_url ''/api/stats'' ''GET'' None = Inr (p2, s2)"
    and s2: "s2 \<noteq> 200" by blast
  from failing_call_not_200 [of net backend_url "''/health''", OF assms(3)] obtain p3 s3 where
    c3: "call_backend_api net backend_url ''/health'' ''GET'' None = Inr (p3, s3)"
    and s3: "s3 \<noteq> 200" by blast
  have "dashboard net backend_url print_attr print_row now args =
          and_then (render_main_template print_attr print_row
             \<lparr>ctx_users = JArr [], ctx_stats = JNull, ctx_backend_status = offline,
              ctx_frontend_status = online, ctx_backend_url = backend_url,
              ctx_timestamp = now, ctx_message = map_of args ''message'',
              ctx_message_type = (case map_of args ''type'' of
                                    None \<Rightarrow> ''success'' | Some t \<Rightarrow> t)\<rparr>)
            (\<lambda>html. Inr (MainPage html, 200))"
    unfolding dashboard_def c1 c2 c3 using s1 s2 s3 by (simp add: and_then_def)
  then show ?thesis
    unfolding render_degraded by (simp add: and_then_def flask_response_def)
qed

theorem dashboard_backend_down_witness:
  "flask_response (dashboard unreachable ''http://localhost:8086'' no_attr no_row
       ''2025-03-01 09:30:00'' []) =
     (MainPage
        \<lparr>pg_backend_status = offline, pg_frontend_status = online,
         pg_timestamp = ''2025-03-01 09:30:00'', pg_banner = None,
         pg_total_users = ''N/A'', pg_environment = ''N/A'', pg_version = ''N/A'',
         pg_users = None, pg_backend_url = ''http://localhost:8086''\<rparr>, 200)
   \<and> flask_response (dashboard failing ''http://localhost:8086'' no_attr no_row
       ''2025-03-01 09:30:00'' [(''message'', ''User deleted successfully!'')]) =
     (MainPage
        \<lparr>pg_backend_status = offline, pg_frontend_status = online,
         pg_timestamp = ''2025-03-01 09:30:00'',
         pg_banner = Some (''success'', ''User deleted successfully!''),
         pg_total_users = ''N/A'', pg_environment = ''N/A'', pg_version = ''N/A'',
         pg_users = None, pg_backend_url = ''http://localhost:8086''\<rparr>, 200)"
proof -
  have u: "call_fails (unreachable ''GET'' (''http://localhost:8086'' @ ''/api/users'') None)"
          "call_fails (unreachable ''GET'' (''http://localhost:8086'' @ ''/api/stats'') None)"
          "call_fails (unreachable ''GET'' (''http://localhost:8086'' @ ''/health'') None)"
    by (simp_all add: unreachable_def)
  have f: "call_fails (failing ''GET'' (''http://localhost:8086'' @ ''/api/users'') None)"
          "call_fails (failing ''GET'' (''http://localhost:8086'' @ ''/api/stats'') None)"
          "call_fails (failing ''GET'' (''http://localhost:8086'' @ ''/health'') None)"
    by (simp_all add: failing_def)
  from dashboard_backend_down [where net = unreachable and backend_url = "''http://localhost:8086''"
          and print_attr = no_attr and print_row = no_row and now = "''2025-03-01 09:30:00''"
          and args = "[]", OF u]
       dashboard_backend_down [where net = failing and backend_url = "''http://localhost:8086''"
          and print_attr = no_attr and print_row = no_row and now = "''2025-03-01 09:30:00''"
          and args = "[(''message'', ''User deleted successfully!'')]", OF f]
  show ?thesis by simp
qed


subsection \<open>Relaying a create and a delete\<close>

lemma add_user_called:
  assumes "map_of form ''name'' = Some name" and "map_of form ''email'' = Some email"
    and "map_of form ''role'' = Some role"
    and "call_backend_api net backend_url ''/api/users'' ''POST''
           (Some (JObj [(''name'', JStr name), (''email'', JStr email), (''role'', JStr role)]))
         = Inr (response, status_code)"
  shows "add_user net backend_url repr form =
           (if status_code = 201
            then Inr (RedirectToDashboard
                        (''User '' @ [CHR 0x27] @ name @ [CHR 0x27] @ '' added successfully!'')
                        ''success'', 302)
            else and_then (py_get response ''error'' (JStr ''Unknown error'')) (\<lambda>err.
                 Inr (RedirectToDashboard (''Failed to add user: '' @ py_format repr err)
                        ''danger'', 302)))"
  using assms by (simp add: add_user_def form_get_def and_then_def)

lemma call_backend_api_rejected:
  assumes "method = ''GET'' \<or> method = ''POST'' \<or> method = ''DELETE''"
    and "net method (backend_url @ endpoint) (if method = ''POST'' then data else None)
           = HttpResponse st reason rurl body"
    and "400 \<le> st" and "st < 600"
  shows "call_backend_api net backend_url endpoint method data =
           Inr (error_body (dec st @ (if st < 500 then '' Client Error: '' else '' Server Error: '')
                            @ reason @ '' for url: '' @ rurl), 500)"
proof -
  from assms(1) have m: "\<not> (method \<noteq> ''GET'' \<and> method \<noteq> ''POST'' \<and> method \<noteq> ''DELETE'')"
    by blast
  show ?thesis
    unfolding call_backend_api_def Let_def if_not_P [OF m] assms(2) http_outcome.case
      raise_for_status_error [OF assms(3,4)] option.case
    by simp
qed

text \<open>
  C8, as the code has it. With the three form fields present, \<^verbatim>\<open>add_user\<close> redirects to
  the dashboard: with the success message naming the user when the helper returns status
  201, and otherwise with the danger message "Failed to add user: " followed by the
  \<^verbatim>\<open>error\<close> value of the payload the helper returns, or by "Unknown error" when that
  payload has no such key. For a request that raises, and for a backend response with a
  status from 400 to 599, that payload is the helper's own and its \<^verbatim>\<open>error\<close> is the text
  of the exception (for such a response: the status, the reason phrase and the URL of the
  response), whatever the body of the response says.
\<close>

theorem add_user_redirects:
  assumes "map_of form ''name'' = Some name" and "map_of form ''email'' = Some email"
    and "map_of form ''role'' = Some role"
    and "call_backend_api net backend_url ''/api/users'' ''POST''
           (Some (JObj [(''name'', JStr name), (''email'', JStr email), (''role'', JStr role)]))
         = Inr (response, status_code)"
  shows "(status_code = 201 \<longrightarrow>
            add_user net backend_url repr form =
              Inr (RedirectToDashboard
                     (''User '' @ [CHR 0x27] @ name @ [CHR 0x27] @ '' added successfully!'')
                     ''success'', 302))
       \<and> (status_code \<noteq> 201 \<longrightarrow>
            (\<forall>payload. response = JObj payload \<longrightarrow>
               add_user net backend_url repr form =
                 Inr (RedirectToDashboard
                        (''Failed to add user: '' @
                           py_format repr (case map_of payload ''error'' of
                                             None \<Rightarrow> JStr ''Unknown error'' | Some v \<Rightarrow> v))
                        ''danger'', 302)))
       \<and> (\<forall>st reason rurl body.
            net ''POST'' (backend_url @ ''/api/users'')
              (Some (JObj [(''name'', JStr name), (''email'', JStr email), (''role'', JStr role)]))
              = HttpResponse st reason rurl body \<and> 400 \<le> st \<and> st < 600 \<longrightarrow>
            response = error_body (dec st @ (if st < 500 then '' Client Error: ''
                                             else '' Server Error: '')
                                   @ reason @ '' for url: '' @ rurl)
            \<and> status_code = 500)
       \<and> (\<forall>e.
            net ''POST'' (backend_url @ ''/api/users'')
              (Some (JObj [(''name'', JStr name), (''email'', JStr email), (''role'', JStr role)]))
              = RequestFailed e \<longrightarrow>
            response = error_body e \<and> status_code = 500)"
proof (intro conjI impI allI)
  assume "status_code = 201"
  with add_user_called [OF assms] show "add_user net backend_url repr form =
      Inr (RedirectToDashboard
             (''User '' @ [CHR 0x27] @ name @ [CHR 0x27] @ '' added successfully!'')
             ''success'', 302)"
    by simp
next
  fix payload
  assume "status_code \<noteq> 201" and "response = JObj payload"
  with add_user_called [OF assms, of repr] show "add_user net backend_url repr form =
      Inr (RedirectToDashboard
             (''Failed to add user: '' @
                py_format repr (case map_of payload ''error'' of
                                  None \<Rightarrow> JStr ''Unknown error'' | Some v \<Rightarrow> v))
             ''danger'', 302)"
    by (simp add: and_then_def split: option.splits)
next
  fix st reason rurl body
  assume a: "net ''POST'' (backend_url @ ''/api/users'')
              (Some (JObj [(''name'', JStr name), (''email'', JStr email), (''role'', JStr role)]))
              = HttpResponse st reason rurl body \<and> 400 \<le> st \<and> st < 600"
  then have "call_backend_api net backend_url ''/api/users'' ''POST''
           (Some (JObj [(''name'', JStr name), (''email'', JStr email), (''role'', JStr role)]))
        = Inr (error_body (dec st @ (if st < 500 then '' Client Error: '' else '' Server Error: '')
                            @ reason @ '' for url: '' @ rurl), 500)"
    by (intro call_backend_api_rejected [where body = body]) simp_all
  with assms(4) show
    "response = error_body (dec st @ (if st < 500 then '' Client Error: ''
                                             else '' Server Error: '')
                                   @ reason @ '' for url: '' @ rurl)"
    and "status_code = 500"
    by simp_all
next
  fix e
  assume "net ''POST'' (backend_url @ ''/api/users'')
              (Some (JObj [(''name'', JStr name), (''email'', JStr email), (''role'', JStr role)]))
              = RequestFailed e"
  then have "call_backend_api net backend_url ''/api/users'' ''POST''
           (Some (JObj [(''name'', JStr name), (''email'', JStr email), (''role'', JStr role)]))
        = Inr (error_body e, 500)"
    by (simp add: call_backend_api_def)
  with assms(4) show "response = error_body e" and "status_code = 500"
    by simp_all
qed


theorem add_user_redirects_witness:
  "add_user accepting ''http://localhost:8086'' no_repr
      [(''name'', ''A''), (''email'', ''a@x.com''), (''role'', ''user'')] =
     Inr (RedirectToDashboard (''User '' @ [CHR 0x27] @ ''A'' @ [CHR 0x27] @ '' added successfully!'')
            ''success'', 302)
   \<and> add_user unreachable ''http://localhost:8086'' no_repr
      [(''name'', ''A''), (''email'', ''a@x.com''), (''role'', ''user'')] =
     Inr (RedirectToDashboard ''Failed to add user: Connection refused'' ''danger'', 302)
   \<and> add_user faulty ''http://localhost:8086'' no_repr
      [(''name'', ''A''), (''email'', ''a@x.com''), (''role'', ''user'')] =
     Inr (RedirectToDashboard
            ''Failed to add user: 500 Server Error: INTERNAL SERVER ERROR for url: http://localhost:8086/api/users''
            ''danger'', 302)"
proof -
  have n: "map_of [(''name'', ''A''), (''email'', ''a@x.com''), (''role'', ''user'')] ''name''
             = Some ''A''"
    and e: "map_of [(''name'', ''A''), (''email'', ''a@x.com''), (''role'', ''user'')] ''email''
             = Some ''a@x.com''"
    and r: "map_of [(''name'', ''A''), (''email'', ''a@x.com''), (''role'', ''user'')] ''role''
             = Some ''user''"
    by simp_all
  have a: "call_backend_api accepting ''http://localhost:8086'' ''/api/users'' ''POST''
             (Some (JObj [(''name'', JStr ''A''), (''email'', JStr ''a@x.com''),
                          (''role'', JStr ''user'')]))
           = Inr (JObj [(''id'', JStr ''3f2b8c1e-0d4a-4e6f-9a7b-5c2d1e0f9a8b''),
                        (''name'', JStr ''A''), (''email'', JStr ''a@x.com''),
                        (''role'', JStr ''user''),
                        (''created_at'', JStr ''2025-03-01T09:30:00'')], 201)"
    by (simp add: call_backend_api_def accepting_def raise_for_status_def)
  have u: "call_backend_api unreachable ''http://localhost:8086'' ''/api/users'' ''POST''
             (Some (JObj [(''name'', JStr ''A''), (''email'', JStr ''a@x.com''),
                          (''role'', JStr ''user'')]))
           = Inr (JObj [(''error'', JStr ''Connection refused'')], 500)"
    by (simp add: call_backend_api_def unreachable_def error_body_def)
  have d: "dec 500 = ''500''" by (simp add: dec.simps)
  obtain response status_code where
    f: "call_backend_api faulty ''http://localhost:8086'' ''/api/users'' ''POST''
             (Some (JObj [(''name'', JStr ''A''), (''email'', JStr ''a@x.com''),
                          (''role'', JStr ''user'')]))
           = Inr (response, status_code)"
    by (simp add: call_backend_api_def faulty_def raise_for_status_def)
  have o: "faulty ''POST'' (''http://localhost:8086'' @ ''/api/users'')
             (Some (JObj [(''name'', JStr ''A''), (''email'', JStr ''a@x.com''),
                          (''role'', JStr ''user'')]))
           = HttpResponse 500 ''INTERNAL SERVER ERROR'' ''http://localhost:8086/api/users''
               (Inr (JObj [(''error'', JStr ''Internal server error'')]))
           \<and> (400::nat) \<le> 500 \<and> (500::nat) < 600"
    by (simp add: faulty_def)
  note th = add_user_redirects [OF n e r f, of no_repr]
  from th o have resp: "response = error_body (dec 500 @ '' Server Error: ''
        @ ''INTERNAL SERVER ERROR'' @ '' for url: '' @ ''http://localhost:8086/api/users'')"
    and st: "status_code = 500"
    by (simp_all del: append.simps append_Cons append_Nil)
  from th resp st d have "add_user faulty ''http://localhost:8086'' no_repr
      [(''name'', ''A''), (''email'', ''a@x.com''), (''role'', ''user'')] =
     Inr (RedirectToDashboard
            ''Failed to add user: 500 Server Error: INTERNAL SERVER ERROR for url: http://localhost:8086/api/users''
            ''danger'', 302)"
    by (simp add: error_body_def py_format_def)
  with add_user_redirects [OF n e r a, of no_repr] add_user_redirects [OF n e r u, of no_repr]
  show ?thesis by (simp add: py_format_def)
qed

text \<open>
  C8 as stated fails when the backend answers 400 with the error "Missing required field:
  name" in its JSON body: the danger message carries the text of the HTTP exception, in
  which the backend's error string does not occur.
\<close>

theorem add_user_hides_backend_error:
  "rejecting ''POST'' ''http://localhost:8086/api/users''
      (Some (JObj [(''name'', JStr ''A''), (''email'', JStr ''a@x.com''), (''role'', JStr ''user'')]))
     = HttpResponse 400 ''BAD REQUEST'' ''http://localhost:8086/api/users''
         (Inr (JObj [(''error'', JStr ''Missing required field: name'')]))
   \<and> add_user rejecting ''http://localhost:8086'' no_repr
      [(''name'', ''A''), (''email'', ''a@x.com''), (''role'', ''user'')] =
     Inr (RedirectToDashboard
            ''Failed to add user: 400 Client Error: BAD REQUEST for url: http://localhost:8086/api/users''
            ''danger'', 302)
   \<and> \<not> contains
        ''Failed to add user: 400 Client Error: BAD REQUEST for url: http://localhost:8086/api/users''
        ''Missing required field: name''"
proof -
  have "dec 400 = ''400''" by (simp add: dec.simps)
  then have "add_user rejecting ''http://localhost:8086'' no_repr
      [(''name'', ''A''), (''email'', ''a@x.com''), (''role'', ''user'')] =
     Inr (RedirectToDashboard
            ''Failed to add user: 400 Client Error: BAD REQUEST for url: http://localhost:8086/api/users''
            ''danger'', 302)"
    by (simp add: add_user_def form_get_def and_then_def call_backend_api_def rejecting_def
                  raise_for_status_def error_body_def py_format_def)
  moreover have "\<not> contains
        ''Failed to add user: 400 Client Error: BAD REQUEST for url: http://localhost:8086/api/users''
        ''Missing required field: name''"
    by simp
  ultimately show ?thesis by (simp add: rejecting_def)
qed

lemma delete_user_page_called:
  assumes "call_backend_api net backend_url (''/api/users/'' @ user_id) ''DELETE'' None
             = Inr (response, status_code)"
  shows "delete_user_page net backend_url repr user_id =
           (if status_code = 200
            then Inr (RedirectToDashboard ''User deleted successfully!'' ''success'', 302)
            else and_then (py_get response ''error'' (JStr ''Unknown error'')) (\<lambda>err.
                 Inr (RedirectToDashboard (''Failed to delete user: '' @ py_format repr err)
                        ''danger'', 302)))"
  using assms by (simp add: delete_user_page_def and_then_def)

text \<open>
  C10, as the code has it. The helper turns every backend response with a status from
  400 to 599 into the pair of \<^verbatim>\<open>{"error": <text of the HTTP exception>}\<close> and 500. The
  text is made of the status, the reason phrase and the URL of the response; the body of
  the response has no part in it. So when the backend rejects a create or a delete with
  such a status, \<^verbatim>\<open>add_user\<close> and \<^verbatim>\<open>delete_user\<close> see status 500 and redirect with the
  danger message "Failed to add user: " or "Failed to delete user: " followed by that text.
\<close>

theorem backend_rejection_collapsed:
  assumes "400 \<le> st" and "st < 600"
  shows "(\<forall>method endpoint data.
            (method = ''GET'' \<or> method = ''POST'' \<or> method = ''DELETE'')
            \<and> net method (backend_url @ endpoint) (if method = ''POST'' then data else None)
                = HttpResponse st reason rurl body \<longrightarrow>
            call_backend_api net backend_url endpoint method data =
              Inr (JObj [(''error'',
                          JStr (dec st @ (if st < 500 then '' Client Error: ''
                                          else '' Server Error: '')
                                @ reason @ '' for url: '' @ rurl))], 500))
       \<and> (\<forall>name email role.
            map_of form ''name'' = Some name \<and> map_of form ''email'' = Some email
            \<and> map_of form ''role'' = Some role
            \<and> net ''POST'' (backend_url @ ''/api/users'')
                (Some (JObj [(''name'', JStr name), (''email'', JStr email),
                             (''role'', JStr role)]))
                = HttpResponse st reason rurl body \<longrightarrow>
            add_user net backend_url repr form =
              Inr (RedirectToDashboard
                     (''Failed to add user: '' @ dec st
                        @ (if st < 500 then '' Client Error: '' else '' Server Error: '')
                        @ reason @ '' for url: '' @ rurl)
                     ''danger'', 302))
       \<and> (net ''DELETE'' (backend_url @ ''/api/users/'' @ user_id) None
              = HttpResponse st reason rurl body \<longrightarrow>
            delete_user_page net backend_url repr user_id =
              Inr (RedirectToDashboard
                     (''Failed to delete user: '' @ dec st
                        @ (if st < 500 then '' Client Error: '' else '' Server Error: '')
                        @ reason @ '' for url: '' @ rurl)
                     ''danger'', 302))"
proof (intro conjI allI impI)
  fix meth endpoint data
  assume a: "(meth = ''GET'' \<or> meth = ''POST'' \<or> meth = ''DELETE'')
            \<and> net meth (backend_url @ endpoint) (if meth = ''POST'' then data else None)
                = HttpResponse st reason rurl body"
  from a have m: "meth = ''GET'' \<or> meth = ''POST'' \<or> meth = ''DELETE''" by (rule conjunct1)
  from a have n: "net meth (backend_url @ endpoint) (if meth = ''POST'' then data else None)
                = HttpResponse st reason rurl body" by (rule conjunct2)
  from call_backend_api_rejected [of meth net backend_url endpoint data st reason rurl body,
      OF m n assms]
  show "call_backend_api net backend_url endpoint meth data =
              Inr (JObj [(''error'',
                          JStr (dec st @ (if st < 500 then '' Client Error: ''
                                          else '' Server Error: '')
                                @ reason @ '' for url: '' @ rurl))], 500)"
    by (simp add: error_body_def)
next
  fix name email role
  assume a: "map_of form ''name'' = Some name \<and> map_of form ''email'' = Some email
            \<and> map_of form ''role'' = Some role
            \<and> net ''POST'' (backend_url @ ''/api/users'')
                (Some (JObj [(''name'', JStr name), (''email'', JStr email),
                             (''role'', JStr role)]))
                = HttpResponse st reason rurl body"
  then have f: "map_of form ''name'' = Some name" "map_of form ''email'' = Some email"
      "map_of form ''role'' = Some role"
    by simp_all
  from a have "call_backend_api net backend_url ''/api/users'' ''POST''
      (Some (JObj [(''name'', JStr name), (''email'', JStr email), (''role'', JStr role)]))
      = Inr (error_body (dec st @ (if st < 500 then '' Client Error: '' else '' Server Error: '')
                            @ reason @ '' for url: '' @ rurl), 500)"
    using assms by (intro call_backend_api_rejected [where body = body]) simp_all
  from add_user_called [OF f this, of repr]
  show "add_user net backend_url repr form =
              Inr (RedirectToDashboard
                     (''Failed to add user: '' @ dec st
                        @ (if st < 500 then '' Client Error: '' else '' Server Error: '')
                        @ reason @ '' for url: '' @ rurl)
                     ''danger'', 302)"
    by (simp add: and_then_def error_body_def py_format_def)
next
  assume a: "net ''DELETE'' (backend_url @ ''/api/users/'' @ user_id) None
              = HttpResponse st reason rurl body"
  then have "call_backend_api net backend_url (''/api/users/'' @ user_id) ''DELETE'' None
      = Inr (error_body (dec st @ (if st < 500 then '' Client Error: '' else '' Server Error: '')
                            @ reason @ '' for url: '' @ rurl), 500)"
    using assms by (intro call_backend_api_rejected [where body = body]) simp_all
  from delete_user_page_called [OF this, of repr]
  show "delete_user_page net backend_url repr user_id =
              Inr (RedirectToDashboard
                     (''Failed to delete user: '' @ dec st
                        @ (if st < 500 then '' Client Error: '' else '' Server Error: '')
                        @ reason @ '' for url: '' @ rurl)
                     ''danger'', 302)"
    by (simp add: and_then_def error_body_def py_format_def)
qed

theorem backend_rejection_collapsed_witness:
  "call_backend_api not_found ''http://localhost:8086'' ''/api/users/999'' ''DELETE'' None =
     Inr (JObj [(''error'',
                 JStr ''404 Client Error: NOT FOUND for url: http://localhost:8086/api/users/999'')],
          500)
   \<and> delete_user_page not_found ''http://localhost:8086'' no_repr ''999'' =
     Inr (RedirectToDashboard
            ''Failed to delete user: 404 Client Error: NOT FOUND for url: http://localhost:8086/api/users/999''
            ''danger'', 302)
   \<and> delete_user_page not_found ''http://localhost:8086'' no_repr ''a b'' =
     Inr (RedirectToDashboard
            ''Failed to delete user: 404 Client Error: NOT FOUND for url: http://localhost:8086/api/users/a%20b''
            ''danger'', 302)
   \<and> add_user not_found ''http://localhost:8086'' no_repr
      [(''name'', ''A''), (''email'', ''a@x.com''), (''role'', ''user'')] =
     Inr (RedirectToDashboard
            ''Failed to add user: 404 Client Error: NOT FOUND for url: http://localhost:8086/api/users''
            ''danger'', 302)"
proof -
  have lo: "(400::nat) \<le> 404" and hi: "(404::nat) < 600" by simp_all
  have d: "dec 404 = ''404''" by (simp add: dec.simps)
  have n: "not_found ''DELETE'' (''http://localhost:8086'' @ ''/api/users/'' @ ''999'') None
             = HttpResponse 404 ''NOT FOUND'' ''http://localhost:8086/api/users/999''
                 (Inr (JObj [(''error'', JStr ''User not found'')]))"
    by (simp add: not_found_def)
  have q: "not_found ''DELETE'' (''http://localhost:8086'' @ ''/api/users/'' @ ''a b'') None
             = HttpResponse 404 ''NOT FOUND'' ''http://localhost:8086/api/users/a%20b''
                 (Inr (JObj [(''error'', JStr ''User not found'')]))"
    by (simp add: not_found_def)
  have p: "map_of [(''name'', ''A''), (''email'', ''a@x.com''), (''role'', ''user'')] ''name''
             = Some ''A''
         \<and> map_of [(''name'', ''A''), (''email'', ''a@x.com''), (''role'', ''user'')] ''email''
             = Some ''a@x.com''
         \<and> map_of [(''name'', ''A''), (''email'', ''a@x.com''), (''role'', ''user'')] ''role''
             = Some ''user''
         \<and> not_found ''POST'' (''http://localhost:8086'' @ ''/api/users'')
             (Some (JObj [(''name'', JStr ''A''), (''email'', JStr ''a@x.com''),
                          (''role'', JStr ''user'')]))
             = HttpResponse 404 ''NOT FOUND'' ''http://localhost:8086/api/users''
                 (Inr (JObj [(''error'', JStr ''User not found'')]))"
    by (simp add: not_found_def)
  note t1 = backend_rejection_collapsed [OF lo hi, where net = not_found
      and backend_url = "''http://localhost:8086''" and reason = "''NOT FOUND''"
      and rurl = "''http://localhost:8086/api/users/999''"
      and body = "Inr (JObj [(''error'', JStr ''User not found'')])" and user_id = "''999''"
      and repr = no_repr and form = "[]"]
  note t2 = backend_rejection_collapsed [OF lo hi, where net = not_found
      and backend_url = "''http://localhost:8086''" and reason = "''NOT FOUND''"
      and rurl = "''http://localhost:8086/api/users/a%20b''"
      and body = "Inr (JObj [(''error'', JStr ''User not found'')])" and user_id = "''a b''"
      and repr = no_repr and form = "[]"]
  note t3 = backend_rejection_collapsed [OF lo hi, where net = not_found
      and backend_url = "''http://localhost:8086''" and reason = "''NOT FOUND''"
      and rurl = "''http://localhost:8086/api/users''"
      and body = "Inr (JObj [(''error'', JStr ''User not found'')])" and user_id = "''999''"
      and repr = no_repr
      and form = "[(''name'', ''A''), (''email'', ''a@x.com''), (''role'', ''user'')]"]
  from t1 [THEN conjunct1, rule_format, of "''DELETE''" "''/api/users/999''" None]
  have c1: "call_backend_api not_found ''http://localhost:8086'' ''/api/users/999'' ''DELETE'' None =
     Inr (JObj [(''error'',
                 JStr ''404 Client Error: NOT FOUND for url: http://localhost:8086/api/users/999'')],
          500)"
    using n d by simp
  from t1 [THEN conjunct2, THEN conjunct2] n
  have c2: "delete_user_page not_found ''http://localhost:8086'' no_repr ''999'' =
     Inr (RedirectToDashboard
            ''Failed to delete user: 404 Client Error: NOT FOUND for url: http://localhost:8086/api/users/999''
            ''danger'', 302)"
    using d by simp
  from t2 [THEN conjunct2, THEN conjunct2] q
  have c3: "delete_user_page not_found ''http://localhost:8086'' no_repr ''a b'' =
     Inr (RedirectToDashboard
            ''Failed to delete user: 404 Client Error: NOT FOUND for url: http://localhost:8086/api/users/a%20b''
            ''danger'', 302)"
    using d by simp
  from t3 [THEN conjunct2, THEN conjunct1, rule_format, OF p]
  have c4: "add_user not_found ''http://localhost:8086'' no_repr
      [(''name'', ''A''), (''email'', ''a@x.com''), (''role'', ''user'')] =
     Inr (RedirectToDashboard
            ''Failed to add user: 404 Client Error: NOT FOUND for url: http://localhost:8086/api/users''
            ''danger'', 302)"
    using d by simp
  from c1 c2 c3 c4 show ?thesis by (simp only: simp_thms)
qed

text \<open>
  C10 as stated fails on a non-2xx response outside 400 to 599: a 300 response with a JSON
  body is returned by the helper with its own status and body, and \<^verbatim>\<open>delete_user\<close> then
  shows the backend's own error string.
\<close>

theorem helper_passes_on_300:
  "call_backend_api multiple_choices ''http://localhost:8086'' ''/api/users/999'' ''DELETE'' None =
     Inr (JObj [(''error'', JStr ''Several users match'')], 300)
   \<and> delete_user_page multiple_choices ''http://localhost:8086'' no_repr ''999'' =
     Inr (RedirectToDashboard ''Failed to delete user: Several users match'' ''danger'', 302)"
  by (simp add: delete_user_page_def and_then_def call_backend_api_def multiple_choices_def
                raise_for_status_def py_format_def)

end
